theory Spec2Isabelle
  imports Complex_Main "HOL-Library.Sublist"
begin

section \<open>Values, errors and the environment\<close>

text \<open>
  The agents of \<^verbatim>\<open>agentic_food_analysis.py\<close> pass around what \<^verbatim>\<open>json.loads\<close>
  returned: the dataclass constructors check the names of the fields and never their
  types. A field therefore holds a JSON value. A Python \<^verbatim>\<open>dict\<close> is the list of its
  items in insertion order. Python's \<^verbatim>\<open>int\<close> and \<^verbatim>\<open>float\<close> are both \<open>JNum\<close>, a real
  number: rounding, NaN and the infinities of binary floating point are not modelled.
\<close>

datatype json =
    JNull
  | JBool bool
  | JNum real
  | JStr string
  | JArr "json list"
  | JObj "(string \<times> json) list"

text \<open>
  The exceptions of a run. \<open>GenerationError\<close> is whatever \<^verbatim>\<open>BaseAgent.call_llm\<close>
  raises: the \<^verbatim>\<open>Exception\<close> of a status other than 200, or an error of the HTTP client.
\<close>

datatype py_error =
    GenerationError string
  | KeyError string
  | TypeError
  | AttributeError

text \<open>
  What the program takes from libraries and from the clock:
  \<^item> \<open>json_loads\<close> is \<^verbatim>\<open>json.loads\<close>, with \<open>None\<close> for \<^verbatim>\<open>json.JSONDecodeError\<close>;
  \<^item> \<open>py_str\<close> renders a value inside an f-string;
  \<^item> \<open>fmt_2f\<close> is the format \<^verbatim>\<open>:.2f\<close>;
  \<^item> \<open>exc_str\<close> is \<^verbatim>\<open>str(e)\<close> of an exception;
  \<^item> \<open>clock k\<close> is \<^verbatim>\<open>datetime.now().strftime("%H:%M:%S")\<close> at the moment the log
    holds \<open>k\<close> entries.
\<close>

record env =
  json_loads :: "string \<Rightarrow> json option"
  py_str :: "json \<Rightarrow> string"
  fmt_2f :: "real \<Rightarrow> string"
  exc_str :: "py_error \<Rightarrow> string"
  clock :: "nat \<Rightarrow> string"

definition ebind :: "py_error + 'a \<Rightarrow> ('a \<Rightarrow> py_error + 'b) \<Rightarrow> py_error + 'b" where
  "ebind m f = (case m of Inl e \<Rightarrow> Inl e | Inr x \<Rightarrow> f x)"

fun mapM :: "('a \<Rightarrow> py_error + 'b) \<Rightarrow> 'a list \<Rightarrow> py_error + 'b list" where
  "mapM f [] = Inr []"
| "mapM f (x # xs) = ebind (f x) (\<lambda>y. ebind (mapM f xs) (\<lambda>ys. Inr (y # ys)))"

subsection \<open>Python's operators on JSON values\<close>

text \<open>A \<^verbatim>\<open>bool\<close> is an \<^verbatim>\<open>int\<close> in Python: \<^verbatim>\<open>True\<close> counts as 1.\<close>

fun num_of :: "json \<Rightarrow> real option" where
  "num_of (JNum r) = Some r"
| "num_of (JBool b) = Some (if b then 1 else 0)"
| "num_of v = None"

text \<open>\<^verbatim>\<open>v * k\<close> for a positive literal \<open>k\<close>: a string or a list is repeated.\<close>

fun py_mul :: "json \<Rightarrow> nat \<Rightarrow> py_error + json" where
  "py_mul (JNum r) k = Inr (JNum (r * real k))"
| "py_mul (JBool b) k = Inr (JNum ((if b then 1 else 0) * real k))"
| "py_mul (JStr s) k = Inr (JStr (concat (replicate k s)))"
| "py_mul (JArr xs) k = Inr (JArr (concat (replicate k xs)))"
| "py_mul JNull k = Inl TypeError"
| "py_mul (JObj kvs) k = Inl TypeError"

fun py_add :: "json \<Rightarrow> json \<Rightarrow> py_error + json" where
  "py_add (JStr s) (JStr t) = Inr (JStr (s @ t))"
| "py_add (JArr xs) (JArr ys) = Inr (JArr (xs @ ys))"
| "py_add a b =
     (case (num_of a, num_of b) of
        (Some x, Some y) \<Rightarrow> Inr (JNum (x + y))
      | _ \<Rightarrow> Inl TypeError)"

definition py_sub :: "json \<Rightarrow> json \<Rightarrow> py_error + json" where
  "py_sub a b =
     (case (num_of a, num_of b) of
        (Some x, Some y) \<Rightarrow> Inr (JNum (x - y))
      | _ \<Rightarrow> Inl TypeError)"

definition py_abs :: "json \<Rightarrow> py_error + json" where
  "py_abs a = (case num_of a of Some x \<Rightarrow> Inr (JNum \<bar>x\<bar>) | None \<Rightarrow> Inl TypeError)"

text \<open>\<^verbatim>\<open>v < c\<close> and \<^verbatim>\<open>v > c\<close> against a numeric literal \<open>c\<close>.\<close>

definition py_lt :: "json \<Rightarrow> real \<Rightarrow> py_error + bool" where
  "py_lt a c = (case num_of a of Some x \<Rightarrow> Inr (x < c) | None \<Rightarrow> Inl TypeError)"

definition py_gt :: "json \<Rightarrow> real \<Rightarrow> py_error + bool" where
  "py_gt a c = (case num_of a of Some x \<Rightarrow> Inr (x > c) | None \<Rightarrow> Inl TypeError)"

text \<open>\<^verbatim>\<open>sum(vs)\<close>: the additions start from the integer 0.\<close>

fun py_sum_from :: "json \<Rightarrow> json list \<Rightarrow> py_error + json" where
  "py_sum_from acc [] = Inr acc"
| "py_sum_from acc (v # vs) = ebind (py_add acc v) (\<lambda>acc'. py_sum_from acc' vs)"

definition py_sum :: "json list \<Rightarrow> py_error + json" where
  "py_sum vs = py_sum_from (JNum 0) vs"

text \<open>\<^verbatim>\<open>v[key]\<close> with a string key.\<close>

fun py_getitem :: "json \<Rightarrow> string \<Rightarrow> py_error + json" where
  "py_getitem (JObj kvs) k =
     (case map_of kvs k of Some v \<Rightarrow> Inr v | None \<Rightarrow> Inl (KeyError k))"
| "py_getitem v k = Inl TypeError"

text \<open>
  \<^verbatim>\<open>for x in v\<close>: a list gives its elements, a string its characters, a dict its keys;
  nothing else is iterable.
\<close>

fun py_iter :: "json \<Rightarrow> py_error + json list" where
  "py_iter (JArr xs) = Inr xs"
| "py_iter (JStr s) = Inr (map (\<lambda>c. JStr [c]) s)"
| "py_iter (JObj kvs) = Inr (map (\<lambda>kv. JStr (fst kv)) kvs)"
| "py_iter v = Inl TypeError"

subsection \<open>Python's string methods\<close>

text \<open>\<^verbatim>\<open>s.find(c)\<close> and \<^verbatim>\<open>s.rfind(c)\<close> for one character: an index, or -1.\<close>

definition py_find :: "char \<Rightarrow> string \<Rightarrow> int" where
  "py_find c s =
     (if c \<in> set s then int (length (takeWhile (\<lambda>x. x \<noteq> c) s)) else - 1)"

definition py_rfind :: "char \<Rightarrow> string \<Rightarrow> int" where
  "py_rfind c s =
     (if c \<in> set s
      then int (length s) - 1 - int (length (takeWhile (\<lambda>x. x \<noteq> c) (rev s)))
      else - 1)"

text \<open>
  \<^verbatim>\<open>s[i:j]\<close>: a negative bound counts from the end, and both bounds are clamped to
  the string.
\<close>

definition py_bound :: "nat \<Rightarrow> int \<Rightarrow> nat" where
  "py_bound n i = (if i < 0 then nat (max (i + int n) 0) else min (nat i) n)"

definition py_slice :: "string \<Rightarrow> int \<Rightarrow> int \<Rightarrow> string" where
  "py_slice s i j =
     (let a = py_bound (length s) i; b = py_bound (length s) j
      in take (b - a) (drop a s))"

text \<open>
  \<^verbatim>\<open>s.lower()\<close> on the ASCII letters. The two words looked for below are ASCII, and no
  character outside ASCII lowers to a sequence in which one of them could begin or go on.
\<close>

definition lower_char :: "char \<Rightarrow> char" where
  "lower_char c =
     (case map_of (zip ''ABCDEFGHIJKLMNOPQRSTUVWXYZ'' ''abcdefghijklmnopqrstuvwxyz'') c of
        Some d \<Rightarrow> d
      | None \<Rightarrow> c)"

definition lower :: "string \<Rightarrow> string" where
  "lower s = map lower_char s"

text \<open>\<^verbatim>\<open>w in s\<close> for strings: \<open>w\<close> occurs in \<open>s\<close> as a contiguous block.\<close>

fun contains :: "string \<Rightarrow> string \<Rightarrow> bool" where
  "contains w [] = (w = [])"
| "contains w (c # cs) = (prefix w (c # cs) \<or> contains w cs)"

section \<open>The data model\<close>

record NutritionData =
  protein :: json
  carbohydrates :: json
  fats :: json
  fiber :: json
  calories :: json
  sodium :: json
  sugar :: json
  cholesterol :: json
  vitamin_c :: json
  calcium :: json
  iron :: json

record FoodItem =
  name :: json
  category :: json
  portion_size :: string
  confidence :: json
  preparation_method :: json
  estimated_weight :: json

record HealthRecommendation =
  rec_category :: json
  message :: json
  priority :: json
  reasoning :: json

record MealSuggestion =
  food_name :: json
  sug_category :: json
  reason :: json
  nutritional_benefit :: json

text \<open>The timestamp is the start time handed to the run, in seconds.\<close>

record AnalysisResult =
  food_items :: "FoodItem list"
  nutrition :: NutritionData
  health_recommendations :: "HealthRecommendation list"
  meal_suggestions :: "MealSuggestion list"
  confidence_score :: real
  analysis_timestamp :: nat
  agent_coordination_log :: "string list"

text \<open>The dictionary that each of the two checks of the verification agent returns.\<close>

record check_result =
  check_confidence :: real
  status :: string
  issues :: "string list"

text \<open>
  The dictionary that \<^verbatim>\<open>verify_analysis\<close> returns, without its \<^verbatim>\<open>summary\<close>, a text that
  renders the other entries.
\<close>

record verification =
  verified :: bool
  overall_confidence :: real
  all_issues :: "string list"
  recommendations_for_improvement :: "string list"

section \<open>The verification agent\<close>

definition negative_macros_msg :: string where
  "negative_macros_msg = ''Negative macronutrient values detected''"

definition mismatch_prefix :: string where
  "mismatch_prefix = ''Calorie calculation mismatch: ''"

definition high_sodium_msg :: string where
  "high_sodium_msg = ''Very high sodium content detected''"

definition mismatch_msg :: "env \<Rightarrow> json \<Rightarrow> json \<Rightarrow> string" where
  "mismatch_msg E cal calc = mismatch_prefix @ py_str E cal @ '' vs '' @ py_str E calc"

definition make_check :: "real \<Rightarrow> real \<Rightarrow> string list \<Rightarrow> check_result" where
  "make_check ok bad iss =
     \<lparr> check_confidence = (if iss = [] then ok else bad),
       status = (if iss = [] then ''PASS'' else ''WARNINGS''),
       issues = iss \<rparr>"

text \<open>
  \<^verbatim>\<open>VerificationAgent._verify_nutrition_values\<close>. The \<^verbatim>\<open>or\<close> of the first test stops at
  its first true operand.
\<close>

definition negative_macros :: "NutritionData \<Rightarrow> py_error + bool" where
  "negative_macros n =
     ebind (py_lt (protein n) 0) (\<lambda>a.
       if a then Inr True
       else ebind (py_lt (carbohydrates n) 0) (\<lambda>b.
         if b then Inr True else py_lt (fats n) 0))"

definition calculated_calories :: "NutritionData \<Rightarrow> py_error + json" where
  "calculated_calories n =
     ebind (py_mul (protein n) 4) (\<lambda>p4.
     ebind (py_mul (carbohydrates n) 4) (\<lambda>c4.
     ebind (py_add p4 c4) (\<lambda>pc.
     ebind (py_mul (fats n) 9) (\<lambda>f9.
     py_add pc f9))))"

definition verify_nutrition_values :: "env \<Rightarrow> NutritionData \<Rightarrow> py_error + check_result" where
  "verify_nutrition_values E n =
     ebind (negative_macros n) (\<lambda>neg.
     ebind (calculated_calories n) (\<lambda>calc.
     ebind (py_sub (calories n) calc) (\<lambda>d.
     ebind (py_abs d) (\<lambda>ad.
     ebind (py_gt ad 50) (\<lambda>mismatch.
     ebind (py_gt (sodium n) 2000) (\<lambda>salty.
       Inr (make_check 0.9 0.6
         ((if neg then [negative_macros_msg] else [])
          @ (if mismatch then [mismatch_msg E (calories n) calc] else [])
          @ (if salty then [high_sodium_msg] else [])))))))))"

text \<open>
  \<^verbatim>\<open>any(w in rec.message.lower() for rec in recommendations)\<close>: the generator stops at
  the first message that mentions \<open>w\<close>; a message that is no string has no \<^verbatim>\<open>lower\<close>.
\<close>

fun any_mentions :: "string \<Rightarrow> HealthRecommendation list \<Rightarrow> py_error + bool" where
  "any_mentions w [] = Inr False"
| "any_mentions w (r # rs) =
     (case message r of
        JStr m \<Rightarrow> if contains w (lower m) then Inr True else any_mentions w rs
      | _ \<Rightarrow> Inl AttributeError)"

definition no_recommendations_msg :: string where
  "no_recommendations_msg = ''No health recommendations provided''"

definition sodium_unaddressed_msg :: string where
  "sodium_unaddressed_msg = ''High sodium not addressed in recommendations''"

definition fiber_unaddressed_msg :: string where
  "fiber_unaddressed_msg = ''Low fiber not addressed in recommendations''"

text \<open>\<^verbatim>\<open>VerificationAgent._verify_recommendations\<close>.\<close>

definition verify_recommendations ::
  "HealthRecommendation list \<Rightarrow> NutritionData \<Rightarrow> py_error + check_result" where
  "verify_recommendations recs n =
     ebind (py_gt (sodium n) 800) (\<lambda>high_sodium.
     ebind (py_lt (fiber n) 5) (\<lambda>low_fiber.
     ebind (any_mentions ''sodium'' recs) (\<lambda>sodium_addressed.
     ebind (any_mentions ''fiber'' recs) (\<lambda>fiber_addressed.
       Inr (make_check 0.8 0.5
         ((if recs = [] then [no_recommendations_msg] else [])
          @ (if high_sodium \<and> \<not> sodium_addressed then [sodium_unaddressed_msg] else [])
          @ (if low_fiber \<and> \<not> fiber_addressed then [fiber_unaddressed_msg] else [])))))))"

text \<open>\<^verbatim>\<open>VerificationAgent._suggest_improvements\<close>.\<close>

definition suggest_improvements :: "AnalysisResult \<Rightarrow> string list" where
  "suggest_improvements r =
     (if confidence_score r < 0.8
      then [''Consider requesting clearer food images for better identification''] else [])
     @ (if length (health_recommendations r) < 3
        then [''Generate more comprehensive health recommendations''] else [])
     @ (if meal_suggestions r = []
        then [''Include meal planning suggestions for complete nutrition''] else [])"

text \<open>\<^verbatim>\<open>VerificationAgent.verify_analysis\<close>.\<close>

definition verify_analysis :: "env \<Rightarrow> AnalysisResult \<Rightarrow> py_error + verification" where
  "verify_analysis E r =
     ebind (verify_nutrition_values E (nutrition r)) (\<lambda>nutrition_check.
     ebind (verify_recommendations (health_recommendations r) (nutrition r))
       (\<lambda>recommendation_check.
       let confidence_factors =
             [check_confidence nutrition_check,
              check_confidence recommendation_check,
              confidence_score r];
           overall = sum_list confidence_factors / real (length confidence_factors)
       in Inr \<lparr> verified = (overall > 0.7),
                overall_confidence = overall,
                all_issues = issues nutrition_check @ issues recommendation_check,
                recommendations_for_improvement = suggest_improvements r \<rparr>))"

section \<open>The stage agents\<close>

text \<open>
  Every agent calls the generation service once. The outcome of that call, the text of the
  completion or the exception raised, is an argument of the agent here: a run consults
  the service at most once per stage, so the four outcomes describe the service on that
  run. A prompt renders its arguments into a text and is kept only where building it can
  raise.
\<close>

text \<open>
  The text between the first \<open>opening\<close> and the last \<open>closing\<close> delimiter of a response:
  \<^verbatim>\<open>response[response.find(o) : response.rfind(c) + 1]\<close>.
\<close>

definition json_slice :: "char \<Rightarrow> char \<Rightarrow> string \<Rightarrow> string" where
  "json_slice opening closing response =
     (let json_start = py_find opening response;
          json_end = py_rfind closing response + 1
      in py_slice response json_start json_end)"

definition fallback_plan :: json where
  "fallback_plan =
     JObj [(''food_items'',
              JArr [JObj [(''name'', JStr ''unknown_food''),
                          (''category'', JStr ''mixed''),
                          (''estimated_weight'', JNum 150),
                          (''preparation'', JStr ''unknown''),
                          (''confidence'', JNum 0.5)]]),
           (''complexity'', JStr ''moderate''),
           (''analysis_focus'', JArr [JStr ''nutrition'', JStr ''health'']),
           (''special_considerations'', JArr []),
           (''recommended_agents'',
              JArr [JStr ''nutrition'', JStr ''health'', JStr ''verification''])]"

text \<open>
  \<^verbatim>\<open>PlanningAgent.analyze_image_and_plan\<close>: the parsed value is returned as it is; the
  handler is for \<^verbatim>\<open>json.JSONDecodeError\<close> and \<^verbatim>\<open>ValueError\<close>.
\<close>

definition analyze_image_and_plan :: "env \<Rightarrow> py_error + string \<Rightarrow> py_error + json" where
  "analyze_image_and_plan E outcome =
     ebind outcome (\<lambda>response.
       Inr (case json_loads E (json_slice CHR ''{'' CHR ''}'' response) of
              Some plan \<Rightarrow> plan
            | None \<Rightarrow> fallback_plan))"

text \<open>
  A dataclass called with \<^verbatim>\<open>**d\<close>: \<open>d\<close> has to be a mapping whose keys are the names of
  the fields, all of them and no other; otherwise \<^verbatim>\<open>TypeError\<close>. The values are stored
  unchecked.
\<close>

definition kwargs_match :: "(string \<times> json) list \<Rightarrow> string list \<Rightarrow> bool" where
  "kwargs_match kvs field_names =
     (list_all (\<lambda>k. k \<in> set field_names) (map fst kvs)
      \<and> list_all (\<lambda>f. f \<in> set (map fst kvs)) field_names)"

definition kw :: "(string \<times> json) list \<Rightarrow> string \<Rightarrow> json" where
  "kw kvs k = (case map_of kvs k of Some v \<Rightarrow> v | None \<Rightarrow> JNull)"

definition nutrition_fields :: "string list" where
  "nutrition_fields =
     [''protein'', ''carbohydrates'', ''fats'', ''fiber'', ''calories'', ''sodium'',
      ''sugar'', ''cholesterol'', ''vitamin_c'', ''calcium'', ''iron'']"

fun make_NutritionData :: "json \<Rightarrow> py_error + NutritionData" where
  "make_NutritionData (JObj kvs) =
     (if kwargs_match kvs nutrition_fields
      then Inr \<lparr> protein = kw kvs ''protein'',
                 carbohydrates = kw kvs ''carbohydrates'',
                 fats = kw kvs ''fats'',
                 fiber = kw kvs ''fiber'',
                 calories = kw kvs ''calories'',
                 sodium = kw kvs ''sodium'',
                 sugar = kw kvs ''sugar'',
                 cholesterol = kw kvs ''cholesterol'',
                 vitamin_c = kw kvs ''vitamin_c'',
                 calcium = kw kvs ''calcium'',
                 iron = kw kvs ''iron'' \<rparr>
      else Inl TypeError)"
| "make_NutritionData v = Inl TypeError"

definition nutrition_fallback :: NutritionData where
  "nutrition_fallback =
     \<lparr> protein = JNum 20, carbohydrates = JNum 30, fats = JNum 15, fiber = JNum 5,
       calories = JNum 300, sodium = JNum 500, sugar = JNum 5, cholesterol = JNum 50,
       vitamin_c = JNum 10, calcium = JNum 100, iron = JNum 2.5 \<rparr>"

text \<open>One line of the nutrition prompt; a missing key raises before the service is called.\<close>

definition describe_item :: "env \<Rightarrow> json \<Rightarrow> py_error + string" where
  "describe_item E item =
     ebind (py_getitem item ''name'') (\<lambda>n.
     ebind (py_getitem item ''estimated_weight'') (\<lambda>w.
     ebind (py_getitem item ''preparation'') (\<lambda>p.
       Inr (''- '' @ py_str E n @ '': '' @ py_str E w @ ''g, '' @ py_str E p))))"

text \<open>
  \<^verbatim>\<open>NutritionAgent.analyze_nutrition\<close>: the handler is for \<^verbatim>\<open>json.JSONDecodeError\<close>,
  \<^verbatim>\<open>ValueError\<close> and \<^verbatim>\<open>TypeError\<close>, so it also takes what the constructor raises.
\<close>

definition analyze_nutrition ::
  "env \<Rightarrow> json \<Rightarrow> py_error + string \<Rightarrow> py_error + NutritionData" where
  "analyze_nutrition E food_items_json outcome =
     ebind (py_iter food_items_json) (\<lambda>items.
     ebind (mapM (describe_item E) items) (\<lambda>food_descriptions.
     ebind outcome (\<lambda>response.
       Inr (case json_loads E (json_slice CHR ''{'' CHR ''}'' response) of
              None \<Rightarrow> nutrition_fallback
            | Some nutrition_data \<Rightarrow>
                (case make_NutritionData nutrition_data of
                   Inr n \<Rightarrow> n
                 | Inl e \<Rightarrow> nutrition_fallback)))))"

definition recommendation_fields :: "string list" where
  "recommendation_fields = [''category'', ''message'', ''priority'', ''reasoning'']"

fun make_HealthRecommendation :: "json \<Rightarrow> py_error + HealthRecommendation" where
  "make_HealthRecommendation (JObj kvs) =
     (if kwargs_match kvs recommendation_fields
      then Inr \<lparr> rec_category = kw kvs ''category'',
                 message = kw kvs ''message'',
                 priority = kw kvs ''priority'',
                 reasoning = kw kvs ''reasoning'' \<rparr>
      else Inl TypeError)"
| "make_HealthRecommendation v = Inl TypeError"

definition health_fallback :: "HealthRecommendation list" where
  "health_fallback =
     [\<lparr> rec_category = JStr ''nutrient_balance'',
        message =
          JStr ''Consider adding more vegetables to increase fiber and micronutrients.'',
        priority = JStr ''medium'',
        reasoning =
          JStr ''Current fiber content could be higher for optimal digestive health.'' \<rparr>]"

text \<open>
  \<^verbatim>\<open>HealthAgent.generate_recommendations\<close>. Its prompt renders the nutrition data and the
  user profile, which raises nothing.
\<close>

definition generate_recommendations ::
  "env \<Rightarrow> py_error + string \<Rightarrow> py_error + HealthRecommendation list" where
  "generate_recommendations E outcome =
     ebind outcome (\<lambda>response.
       Inr (case json_loads E (json_slice CHR ''['' CHR '']'' response) of
              None \<Rightarrow> health_fallback
            | Some recommendations_data \<Rightarrow>
                (case ebind (py_iter recommendations_data) (mapM make_HealthRecommendation) of
                   Inr recs \<Rightarrow> recs
                 | Inl e \<Rightarrow> health_fallback)))"

definition suggestion_fields :: "string list" where
  "suggestion_fields = [''food_name'', ''category'', ''reason'', ''nutritional_benefit'']"

fun make_MealSuggestion :: "json \<Rightarrow> py_error + MealSuggestion" where
  "make_MealSuggestion (JObj kvs) =
     (if kwargs_match kvs suggestion_fields
      then Inr \<lparr> food_name = kw kvs ''food_name'',
                 sug_category = kw kvs ''category'',
                 reason = kw kvs ''reason'',
                 nutritional_benefit = kw kvs ''nutritional_benefit'' \<rparr>
      else Inl TypeError)"
| "make_MealSuggestion v = Inl TypeError"

definition meal_fallback :: "MealSuggestion list" where
  "meal_fallback =
     [\<lparr> food_name = JStr ''Mixed green salad'',
        sug_category = JStr ''vegetable'',
        reason = JStr ''Adds fiber and micronutrients'',
        nutritional_benefit = JStr ''Vitamins A, C, K and folate'' \<rparr>]"

text \<open>\<^verbatim>\<open>sep.join(vs)\<close>: every element has to be a string.\<close>

fun py_join :: "string \<Rightarrow> json list \<Rightarrow> py_error + string" where
  "py_join sep [] = Inr []"
| "py_join sep [JStr s] = Inr s"
| "py_join sep (JStr s # v # vs) = ebind (py_join sep (v # vs)) (\<lambda>rest. Inr (s @ sep @ rest))"
| "py_join sep (v # vs) = Inl TypeError"

text \<open>
  \<^verbatim>\<open>MealPlanningAgent.suggest_complementary_foods\<close>: the names of the items are joined
  for the prompt before the service is called.
\<close>

definition suggest_complementary_foods ::
  "env \<Rightarrow> json \<Rightarrow> py_error + string \<Rightarrow> py_error + MealSuggestion list" where
  "suggest_complementary_foods E food_items_json outcome =
     ebind (py_iter food_items_json) (\<lambda>items.
     ebind (mapM (\<lambda>item. py_getitem item ''name'') items) (\<lambda>current_foods.
     ebind (py_join '', '' current_foods) (\<lambda>joined.
     ebind outcome (\<lambda>response.
       Inr (case json_loads E (json_slice CHR ''['' CHR '']'' response) of
              None \<Rightarrow> meal_fallback
            | Some suggestions_data \<Rightarrow>
                (case ebind (py_iter suggestions_data) (mapM make_MealSuggestion) of
                   Inr suggestions \<Rightarrow> suggestions
                 | Inl e \<Rightarrow> meal_fallback))))))"

section \<open>The orchestrator\<close>

text \<open>The outcomes of the four calls of the generation service on one run.\<close>

record responses =
  planning_response :: "py_error + string"
  nutrition_response :: "py_error + string"
  health_response :: "py_error + string"
  meal_response :: "py_error + string"

text \<open>\<^verbatim>\<open>AgenticWorkflowOrchestrator._log\<close>, on the coordination log.\<close>

definition log_message :: "env \<Rightarrow> string \<Rightarrow> string list \<Rightarrow> string list" where
  "log_message E msg lg = lg @ [''['' @ clock E (length lg) @ ''] '' @ msg]"

text \<open>
  A step of the workflow takes the coordination log and returns it with a value or with
  the exception raised.
\<close>

type_synonym 'a run = "string list \<Rightarrow> string list \<times> (py_error + 'a)"

definition rbind :: "'a run \<Rightarrow> ('a \<Rightarrow> 'b run) \<Rightarrow> 'b run" where
  "rbind m f lg = (case m lg of (lg', Inl e) \<Rightarrow> (lg', Inl e) | (lg', Inr x) \<Rightarrow> f x lg')"

definition rlift :: "py_error + 'a \<Rightarrow> 'a run" where
  "rlift m lg = (lg, m)"

definition rlog :: "env \<Rightarrow> string \<Rightarrow> unit run" where
  "rlog E msg lg = (log_message E msg lg, Inr ())"

definition rget_log :: "string list run" where
  "rget_log lg = (lg, Inr lg)"

text \<open>One \<^verbatim>\<open>FoodItem(...)\<close> of the list comprehension; the keys are read left to right.\<close>

definition make_FoodItem :: "env \<Rightarrow> json \<Rightarrow> py_error + FoodItem" where
  "make_FoodItem E item =
     ebind (py_getitem item ''name'') (\<lambda>n.
     ebind (py_getitem item ''category'') (\<lambda>c.
     ebind (py_getitem item ''estimated_weight'') (\<lambda>w.
     ebind (py_getitem item ''confidence'') (\<lambda>cf.
     ebind (py_getitem item ''preparation'') (\<lambda>p.
     ebind (py_getitem item ''estimated_weight'') (\<lambda>w'.
       Inr \<lparr> name = n, category = c, portion_size = py_str E w @ ''g'',
             confidence = cf, preparation_method = p, estimated_weight = w' \<rparr>))))))"

definition make_food_items :: "env \<Rightarrow> json \<Rightarrow> py_error + FoodItem list" where
  "make_food_items E plan =
     ebind (py_getitem plan ''food_items'') (\<lambda>fi.
     ebind (py_iter fi) (mapM (make_FoodItem E)))"

text \<open>\<^verbatim>\<open>s / n\<close> for the length \<open>n\<close> of a list that is not empty.\<close>

definition py_truediv :: "json \<Rightarrow> nat \<Rightarrow> py_error + real" where
  "py_truediv s n = (case num_of s of Some x \<Rightarrow> Inr (x / real n) | None \<Rightarrow> Inl TypeError)"

text \<open>
  The confidence before verification:
  \<^verbatim>\<open>sum(confidence_scores) / len(confidence_scores) if confidence_scores else 0.5\<close>.
\<close>

definition aggregate_confidence :: "FoodItem list \<Rightarrow> py_error + real" where
  "aggregate_confidence items =
     (let confidence_scores = map confidence items
      in if confidence_scores \<noteq> []
         then ebind (py_sum confidence_scores) (\<lambda>s. py_truediv s (length confidence_scores))
         else Inr 0.5)"

text \<open>The body of the \<^verbatim>\<open>try\<close> in \<^verbatim>\<open>analyze_food_image\<close>.\<close>

definition workflow :: "env \<Rightarrow> responses \<Rightarrow> nat \<Rightarrow> AnalysisResult run" where
  "workflow E R start_time =
     rbind (rlog E ''Planning Agent: Analyzing image and creating analysis strategy'') (\<lambda>_.
     rbind (rlift (analyze_image_and_plan E (planning_response R))) (\<lambda>plan.
     rbind (rlift (make_food_items E plan)) (\<lambda>items.
     rbind (rlog E ''Nutrition Agent: Calculating comprehensive nutrition data'') (\<lambda>_.
     rbind (rlift (ebind (py_getitem plan ''food_items'') (\<lambda>fi.
              analyze_nutrition E fi (nutrition_response R)))) (\<lambda>nutr.
     rbind (rlog E ''Health Agent: Generating personalized health recommendations'') (\<lambda>_.
     rbind (rlift (ebind (py_getitem plan ''food_items'') (\<lambda>fi.
              generate_recommendations E (health_response R)))) (\<lambda>recs.
     rbind (rlog E ''Meal Planning Agent: Suggesting complementary foods'') (\<lambda>_.
     rbind (rlift (ebind (py_getitem plan ''food_items'') (\<lambda>fi.
              suggest_complementary_foods E fi (meal_response R)))) (\<lambda>sugs.
     rbind (rlift (aggregate_confidence items)) (\<lambda>overall.
     rbind rget_log (\<lambda>log_copy.
     rbind (rlog E ''Verification Agent: Validating analysis results'') (\<lambda>_.
     rbind (rlift (verify_analysis E
              \<lparr> food_items = items, nutrition = nutr, health_recommendations = recs,
                meal_suggestions = sugs, confidence_score = overall,
                analysis_timestamp = start_time,
                agent_coordination_log = log_copy \<rparr>)) (\<lambda>v.
     rbind (rlog E (''Analysis completed with confidence: ''
              @ fmt_2f E ((overall + overall_confidence v) / 2))) (\<lambda>_.
     rbind rget_log (\<lambda>final_log.
       rlift (Inr \<lparr> food_items = items, nutrition = nutr, health_recommendations = recs,
                    meal_suggestions = sugs,
                    confidence_score = (overall + overall_confidence v) / 2,
                    analysis_timestamp = start_time,
                    agent_coordination_log = final_log \<rparr>))))))))))))))))"

text \<open>
  \<^verbatim>\<open>AgenticWorkflowOrchestrator.analyze_food_image\<close>: the coordination log of the
  orchestrator after the call, with the result returned or the exception raised.
\<close>

definition analyze_food_image ::
  "env \<Rightarrow> responses \<Rightarrow> nat \<Rightarrow> string list \<times> (py_error + AnalysisResult)" where
  "analyze_food_image E R start_time =
     (case workflow E R start_time [] of
        (lg, Inl e) \<Rightarrow> (log_message E (''Error in workflow: '' @ exc_str E e) lg, Inl e)
      | (lg, Inr final_result) \<Rightarrow> (lg, Inr final_result))"

text \<open>The \<^verbatim>\<open>except\<close> branch of the nutrition agent is taken on this condition.\<close>

definition nutrition_extraction_fails :: "env \<Rightarrow> string \<Rightarrow> bool" where
  "nutrition_extraction_fails E response =
     (case json_loads E (json_slice CHR ''{'' CHR ''}'' response) of
        None \<Rightarrow> True
      | Some nutrition_data \<Rightarrow>
          (case make_NutritionData nutrition_data of Inl e \<Rightarrow> True | Inr n \<Rightarrow> False))"

section \<open>Well-typed results\<close>




section \<open>An environment for the examples\<close>

text \<open>
  The theorems below hold for every environment. Where one is evaluated on an example,
  \<^verbatim>\<open>json.loads\<close> is a finite table: the documents of the example with the values they
  parse to; a text outside the table does not parse. The renderings are fixed texts.
\<close>

definition table_env :: "(string \<times> json) list \<Rightarrow> env" where
  "table_env docs =
     \<lparr> json_loads = map_of docs,
       py_str = (\<lambda>v. ''<value>''),
       fmt_2f = (\<lambda>x. ''<number>''),
       exc_str = (\<lambda>e. ''<error>''),
       clock = (\<lambda>k. ''00:00:00'') \<rparr>"

text \<open>A response of the nutrition agent: a JSON object between two sentences.\<close>

definition example_nutrition_body :: string where
  \<open>example_nutrition_body =
     ''"protein":12,"carbohydrates":40,"fats":8,"fiber":6,"calories":280,"sodium":300,''
     @ ''"sugar":4,"cholesterol":20,"vitamin_c":15,"calcium":80,"iron":2''\<close>

definition example_nutrition_json :: json where
  "example_nutrition_json =
     JObj [(''protein'', JNum 12), (''carbohydrates'', JNum 40), (''fats'', JNum 8),
           (''fiber'', JNum 6), (''calories'', JNum 280), (''sodium'', JNum 300),
           (''sugar'', JNum 4), (''cholesterol'', JNum 20), (''vitamin_c'', JNum 15),
           (''calcium'', JNum 80), (''iron'', JNum 2)]"

definition example_nutrition :: NutritionData where
  "example_nutrition =
     \<lparr> protein = JNum 12, carbohydrates = JNum 40, fats = JNum 8, fiber = JNum 6,
       calories = JNum 280, sodium = JNum 300, sugar = JNum 4, cholesterol = JNum 20,
       vitamin_c = JNum 15, calcium = JNum 80, iron = JNum 2 \<rparr>"

definition example_env :: env where
  "example_env = table_env [(CHR ''{'' # example_nutrition_body @ ''}'', example_nutrition_json)]"

text \<open>A run on which no response holds any JSON, so that every agent falls back.\<close>

definition no_json_responses :: responses where
  "no_json_responses =
     \<lparr> planning_response = Inr ''I cannot tell.'',
       nutrition_response = Inr ''I cannot tell.'',
       health_response = Inr ''I cannot tell.'',
       meal_response = Inr ''I cannot tell.'' \<rparr>"

definition no_json_log :: "string list" where
  "no_json_log =
     [''[00:00:00] Planning Agent: Analyzing image and creating analysis strategy'',
      ''[00:00:00] Nutrition Agent: Calculating comprehensive nutrition data'',
      ''[00:00:00] Health Agent: Generating personalized health recommendations'',
      ''[00:00:00] Meal Planning Agent: Suggesting complementary foods'',
      ''[00:00:00] Verification Agent: Validating analysis results'',
      ''[00:00:00] Analysis completed with confidence: <number>'']"

definition no_json_result :: AnalysisResult where
  "no_json_result =
     \<lparr> food_items =
         [\<lparr> name = JStr ''unknown_food'', category = JStr ''mixed'',
            portion_size = ''<value>g'', confidence = JNum 0.5,
            preparation_method = JStr ''unknown'', estimated_weight = JNum 150 \<rparr>],
       nutrition = nutrition_fallback,
       health_recommendations = health_fallback,
       meal_suggestions = meal_fallback,
       confidence_score = 37 / 60,
       analysis_timestamp = 0,
       agent_coordination_log = no_json_log \<rparr>"

text \<open>A run on which the generation service fails at the first call.\<close>

definition service_down :: responses where
  "service_down =
     \<lparr> planning_response = Inl (GenerationError ''API call failed with status 503: down''),
       nutrition_response = Inr [],
       health_response = Inr [],
       meal_response = Inr [] \<rparr>"

section \<open>Auxiliary facts\<close>

lemma ebind_simps [simp]: "ebind (Inl e) f = Inl e" "ebind (Inr x) f = f x"
  by (simp_all add: ebind_def)

lemma ebind_eq_Inr: "ebind m f = Inr y \<longleftrightarrow> (\<exists>x. m = Inr x \<and> f x = Inr y)"
  by (cases m) simp_all


text \<open>The substring test is the contiguous sublist relation of the library.\<close>

lemma contains_iff_sublist: "contains w s \<longleftrightarrow> sublist w s"
  by (induction s) (auto simp: sublist_Cons_right)

subsection \<open>The nutrition check on numbers\<close>

lemma calculated_calories_num:
  assumes "num_of (protein n) = Some p" "num_of (carbohydrates n) = Some c"
    "num_of (fats n) = Some f"
  shows "calculated_calories n = Inr (JNum (p * 4 + c * 4 + f * 9))"
  using assms unfolding calculated_calories_def
  by (cases "protein n"; cases "carbohydrates n"; cases "fats n"; simp split: if_splits)

lemma negative_macros_num:
  assumes "num_of (protein n) = Some p" "num_of (carbohydrates n) = Some c"
    "num_of (fats n) = Some f"
  shows "negative_macros n = Inr (p < 0 \<or> c < 0 \<or> f < 0)"
  using assms unfolding negative_macros_def py_lt_def by auto

lemma verify_nutrition_values_num:
  assumes "num_of (protein n) = Some p" "num_of (carbohydrates n) = Some c"
    "num_of (fats n) = Some f" "num_of (calories n) = Some cal" "num_of (sodium n) = Some so"
  shows "verify_nutrition_values E n =
     Inr (make_check 0.9 0.6
         ((if p < 0 \<or> c < 0 \<or> f < 0 then [negative_macros_msg] else [])
          @ (if \<bar>cal - (p * 4 + c * 4 + f * 9)\<bar> > 50
             then [mismatch_msg E (calories n) (JNum (p * 4 + c * 4 + f * 9))] else [])
          @ (if so > 2000 then [high_sodium_msg] else [])))"
  unfolding verify_nutrition_values_def
  using assms
  by (simp add: calculated_calories_num[OF assms(1-3)] negative_macros_num[OF assms(1-3)]
      py_sub_def py_abs_def py_gt_def)


subsection \<open>The recommendation check on strings\<close>

lemma any_mentions_strings:
  "map message recs = map JStr msgs \<Longrightarrow>
     any_mentions w recs = Inr (list_ex (\<lambda>m. contains w (lower m)) msgs)"
proof (induction recs arbitrary: msgs)
  case Nil
  then show ?case by simp
next
  case (Cons r rs)
  then obtain m ms where "msgs = m # ms" "message r = JStr m" "map message rs = map JStr ms"
    by (cases msgs) auto
  with Cons.IH[of ms] show ?case by simp
qed

lemma verify_recommendations_typed:
  assumes "num_of (sodium n) = Some so" "num_of (fiber n) = Some fi"
    "map message recs = map JStr msgs"
  shows "verify_recommendations recs n =
     Inr (make_check 0.8 0.5
         ((if recs = [] then [no_recommendations_msg] else [])
          @ (if so > 800 \<and> \<not> list_ex (\<lambda>m. contains ''sodium'' (lower m)) msgs
             then [sodium_unaddressed_msg] else [])
          @ (if fi < 5 \<and> \<not> list_ex (\<lambda>m. contains ''fiber'' (lower m)) msgs
             then [fiber_unaddressed_msg] else [])))"
  unfolding verify_recommendations_def
  using assms(1,2)
  by (simp add: any_mentions_strings[OF assms(3)] py_gt_def py_lt_def)

lemma rec_msgs_distinct:
  "no_recommendations_msg \<noteq> sodium_unaddressed_msg"
  "no_recommendations_msg \<noteq> fiber_unaddressed_msg"
  "sodium_unaddressed_msg \<noteq> fiber_unaddressed_msg"
  by (simp_all add: no_recommendations_msg_def sodium_unaddressed_msg_def
      fiber_unaddressed_msg_def)

subsection \<open>Sums of numbers\<close>


subsection \<open>Verification of a well-typed result\<close>





subsection \<open>The fallback values\<close>

lemma fallback_nums:
  "num_of (protein nutrition_fallback) = Some 20"
  "num_of (carbohydrates nutrition_fallback) = Some 30"
  "num_of (fats nutrition_fallback) = Some 15"
  "num_of (calories nutrition_fallback) = Some 300"
  "num_of (sodium nutrition_fallback) = Some 500"
  "num_of (fiber nutrition_fallback) = Some 5"
  by (simp_all add: nutrition_fallback_def)

lemma health_fallback_msgs:
  "map message health_fallback =
     map JStr [''Consider adding more vegetables to increase fiber and micronutrients.'']"
  by (simp add: health_fallback_def)

lemma fallback_nutrition_check:
  "verify_nutrition_values E nutrition_fallback
     = Inr \<lparr> check_confidence = 0.9, status = ''PASS'', issues = [] \<rparr>"
  by (simp add: verify_nutrition_values_num[OF fallback_nums(1-5)] make_check_def)

lemma fallback_recommendation_check:
  "verify_recommendations health_fallback nutrition_fallback
     = Inr \<lparr> check_confidence = 0.8, status = ''PASS'', issues = [] \<rparr>"
  by (simp add: verify_recommendations_typed[OF fallback_nums(5,6) health_fallback_msgs]
      make_check_def)
    (simp add: health_fallback_def)

lemma fallback_sizes: "length health_fallback = 1" "meal_fallback \<noteq> []"
  by (simp_all add: health_fallback_def meal_fallback_def)


subsection \<open>The slice of a response\<close>

lemma json_slice_no_delims:
  assumes "opening \<notin> set s" "closing \<notin> set s"
  shows "json_slice opening closing s = []"
  using assms
  by (simp add: json_slice_def py_find_def py_rfind_def py_slice_def py_bound_def Let_def)

subsection \<open>The nutrition agent\<close>

lemma analyze_nutrition_fallback:
  assumes "nutrition_extraction_fails E response"
    "analyze_nutrition E fi (Inr response) = Inr n"
  shows "n = nutrition_fallback"
proof -
  from assms(2) obtain items ds where
    "py_iter fi = Inr items" "mapM (describe_item E) items = Inr ds"
    unfolding analyze_nutrition_def ebind_eq_Inr by blast
  with assms show ?thesis
    by (auto simp: analyze_nutrition_def nutrition_extraction_fails_def
        split: option.splits sum.splits)
qed

subsection \<open>Steps of the workflow\<close>

lemma rbind_rlift:
  "rbind (rlift m) f lg = (case m of Inl e \<Rightarrow> (lg, Inl e) | Inr x \<Rightarrow> f x lg)"
  by (simp add: rbind_def rlift_def split: sum.splits)

lemma rbind_rlog: "rbind (rlog E msg) f lg = f () (log_message E msg lg)"
  by (simp add: rbind_def rlog_def)

lemma rbind_rget_log: "rbind rget_log f lg = f lg lg"
  by (simp add: rbind_def rget_log_def)

lemma workflow_Inr:
  assumes "workflow E R t lg0 = (lg, Inr res)"
  shows "\<exists>overall v. aggregate_confidence (food_items res) = Inr overall
     \<and> verify_analysis E (res\<lparr>confidence_score := overall\<rparr>) = Inr v
     \<and> confidence_score res = (overall + overall_confidence v) / 2
     \<and> agent_coordination_log res = lg"
  using assms unfolding workflow_def
  apply (simp add: rbind_rlift rbind_rlog rbind_rget_log rlift_def split: sum.splits)
  apply (auto simp: verify_analysis_def suggest_improvements_def)
  done

subsection \<open>An object between two texts\<close>

lemma takeWhile_until:
  "c \<notin> set xs \<Longrightarrow> takeWhile (\<lambda>x. x \<noteq> c) (xs @ c # ys) = xs"
  by (induction xs) auto

lemma py_find_embedded:
  "opening \<notin> set pre \<Longrightarrow> py_find opening (pre @ opening # rest) = int (length pre)"
  by (simp add: py_find_def takeWhile_until)

lemma py_rfind_embedded:
  "closing \<notin> set post \<Longrightarrow>
     py_rfind closing (front @ closing # post) = int (length front)"
proof -
  assume a: "closing \<notin> set post"
  then have "closing \<notin> set (rev post)" by simp
  then have "takeWhile (\<lambda>x. x \<noteq> closing) (rev post @ closing # rev front) = rev post"
    by (rule takeWhile_until)
  then show ?thesis by (simp add: py_rfind_def)
qed

lemma json_slice_embedded:
  assumes "opening \<notin> set pre" "closing \<notin> set post"
  shows "json_slice opening closing (pre @ opening # body @ closing # post)
           = opening # body @ [closing]"
proof -
  let ?s = "pre @ opening # body @ closing # post"
  have f: "py_find opening ?s = int (length pre)"
    using assms(1) by (rule py_find_embedded)
  have "py_rfind closing ((pre @ opening # body) @ closing # post) = int (length (pre @ opening # body))"
    using assms(2) by (rule py_rfind_embedded)
  then have r: "py_rfind closing ?s = int (length pre) + 1 + int (length body)"
    by simp
  show ?thesis
    unfolding json_slice_def f r
    by (simp add: py_slice_def py_bound_def Let_def nat_add_distrib)
qed

lemma analyze_nutrition_Inr:
  assumes "analyze_nutrition E fi (Inr response) = Inr n"
  shows "n = (case json_loads E (json_slice CHR ''{'' CHR ''}'' response) of
              None \<Rightarrow> nutrition_fallback
            | Some nutrition_data \<Rightarrow>
                (case make_NutritionData nutrition_data of
                   Inr n \<Rightarrow> n
                 | Inl e \<Rightarrow> nutrition_fallback))"
proof -
  from assms obtain items ds where
    "py_iter fi = Inr items" "mapM (describe_item E) items = Inr ds"
    unfolding analyze_nutrition_def ebind_eq_Inr by blast
  with assms show ?thesis by (simp add: analyze_nutrition_def)
qed

lemma analyze_nutrition_no_items:
  "analyze_nutrition E (JArr []) (Inr response)
     = Inr (case json_loads E (json_slice CHR ''{'' CHR ''}'' response) of
              None \<Rightarrow> nutrition_fallback
            | Some nutrition_data \<Rightarrow>
                (case make_NutritionData nutrition_data of
                   Inr n \<Rightarrow> n
                 | Inl e \<Rightarrow> nutrition_fallback))"
  by (simp add: analyze_nutrition_def)

subsection \<open>What the handlers of the agents absorb\<close>

lemma parse_failure_absorbed:
  "json_loads E (json_slice CHR ''{'' CHR ''}'' response) = None \<Longrightarrow>
     analyze_image_and_plan E (Inr response) = Inr fallback_plan"
  "json_loads E (json_slice CHR ''{'' CHR ''}'' response) = None \<Longrightarrow>
     analyze_nutrition E (JArr []) (Inr response) = Inr nutrition_fallback"
  "json_loads E (json_slice CHR ''['' CHR '']'' response) = None \<Longrightarrow>
     generate_recommendations E (Inr response) = Inr health_fallback"
  "json_loads E (json_slice CHR ''['' CHR '']'' response) = None \<Longrightarrow>
     suggest_complementary_foods E (JArr []) (Inr response) = Inr meal_fallback"
  by (simp_all add: analyze_image_and_plan_def analyze_nutrition_def
      generate_recommendations_def suggest_complementary_foods_def)

lemma wrong_keys_absorbed:
  "json_loads E (json_slice CHR ''{'' CHR ''}'' response) = Some v \<Longrightarrow>
   make_NutritionData v = Inl e \<Longrightarrow>
     analyze_nutrition E (JArr []) (Inr response) = Inr nutrition_fallback"
  "json_loads E (json_slice CHR ''['' CHR '']'' response) = Some v \<Longrightarrow>
   ebind (py_iter v) (mapM make_HealthRecommendation) = Inl e \<Longrightarrow>
     generate_recommendations E (Inr response) = Inr health_fallback"
  "json_loads E (json_slice CHR ''['' CHR '']'' response) = Some v \<Longrightarrow>
   ebind (py_iter v) (mapM make_MealSuggestion) = Inl e \<Longrightarrow>
     suggest_complementary_foods E (JArr []) (Inr response) = Inr meal_fallback"
  by (simp_all add: analyze_nutrition_def generate_recommendations_def
      suggest_complementary_foods_def)

subsection \<open>The run on which every agent falls back\<close>

lemma no_json_slice:
  "json_slice CHR ''{'' CHR ''}'' ''I cannot tell.'' = []"
  "json_slice CHR ''['' CHR '']'' ''I cannot tell.'' = []"
  by (simp_all add: json_slice_no_delims)

lemma no_json_stages:
  "analyze_image_and_plan (table_env []) (Inr ''I cannot tell.'') = Inr fallback_plan"
  "generate_recommendations (table_env []) (Inr ''I cannot tell.'') = Inr health_fallback"
  by (simp_all add: analyze_image_and_plan_def generate_recommendations_def no_json_slice table_env_def)

lemma fallback_plan_items:
  "py_getitem fallback_plan ''food_items'' = Inr (JArr [JObj [(''name'', JStr ''unknown_food''),
                          (''category'', JStr ''mixed''),
                          (''estimated_weight'', JNum 150),
                          (''preparation'', JStr ''unknown''),
                          (''confidence'', JNum 0.5)]])"
  by (simp add: fallback_plan_def)

lemma no_json_food_items:
  "make_food_items (table_env []) fallback_plan = Inr (food_items no_json_result)"
  by (simp add: make_food_items_def fallback_plan_items make_FoodItem_def no_json_result_def table_env_def)

lemma no_json_nutrition:
  "ebind (py_getitem fallback_plan ''food_items'')
     (\<lambda>fi. analyze_nutrition (table_env []) fi (Inr ''I cannot tell.''))
   = Inr nutrition_fallback"
  by (simp add: fallback_plan_items analyze_nutrition_def describe_item_def no_json_slice
      table_env_def)

lemma fallback_plan_has_items:
  "ebind (py_getitem fallback_plan ''food_items'') (\<lambda>fi. Inr x) = Inr x"
  by (simp add: fallback_plan_items)

lemma no_json_meal:
  "ebind (py_getitem fallback_plan ''food_items'')
     (\<lambda>fi. suggest_complementary_foods (table_env []) fi (Inr ''I cannot tell.''))
   = Inr meal_fallback"
  by (simp add: fallback_plan_items suggest_complementary_foods_def no_json_slice
      table_env_def)

lemma no_json_aggregate: "aggregate_confidence (food_items no_json_result) = Inr 0.5"
  by (simp add: aggregate_confidence_def no_json_result_def py_sum_def py_truediv_def)

lemma no_json_workflow:
  "workflow (table_env []) no_json_responses 0 [] = (no_json_log, Inr no_json_result)"
proof -
  have v: "verify_analysis (table_env [])
      \<lparr> food_items = fis, nutrition = nutrition_fallback,
        health_recommendations = health_fallback, meal_suggestions = meal_fallback,
        confidence_score = 1 / 2, analysis_timestamp = 0, agent_coordination_log = lg \<rparr>
     = Inr \<lparr> verified = True, overall_confidence = 11 / 15, all_issues = [],
             recommendations_for_improvement =
               [''Consider requesting clearer food images for better identification'',
                ''Generate more comprehensive health recommendations''] \<rparr>" for fis lg
    by (simp add: verify_analysis_def fallback_nutrition_check
        fallback_recommendation_check suggest_improvements_def fallback_sizes)
  have l: "fmt_2f (table_env []) x = ''<number>''" "clock (table_env []) k = ''00:00:00''" for x k
    by (simp_all add: table_env_def)
  show ?thesis
    unfolding workflow_def
    by (simp add: rbind_rlift rbind_rlog rbind_rget_log rlift_def no_json_responses_def
        no_json_stages no_json_food_items no_json_nutrition fallback_plan_has_items no_json_meal
        no_json_aggregate v log_message_def l no_json_log_def)
      (simp add: no_json_result_def no_json_log_def)
qed

lemma no_json_run:
  "analyze_food_image (table_env []) no_json_responses 0 = (no_json_log, Inr no_json_result)"
  by (simp add: analyze_food_image_def no_json_workflow)

subsection \<open>The example response of the nutrition agent\<close>

lemma example_parse:
  "json_loads example_env (CHR ''{'' # example_nutrition_body @ ''}'') = Some example_nutrition_json"
  "json_loads example_env [] = None"
  by (simp_all add: example_env_def table_env_def)

lemma example_make: "make_NutritionData example_nutrition_json = Inr example_nutrition"
  by (simp add: example_nutrition_json_def example_nutrition_def kwargs_match_def kw_def
      nutrition_fields_def)

subsection \<open>An exception of a stage ends the run\<close>

lemma make_FoodItem_describes:
  "make_FoodItem E j = Inr i \<Longrightarrow> \<exists>d. describe_item E j = Inr d"
  unfolding make_FoodItem_def describe_item_def ebind_eq_Inr by auto

lemma mapM_eq_Inr_Cons:
  "mapM f (x # xs) = Inr ys \<longleftrightarrow> (\<exists>y ys'. f x = Inr y \<and> mapM f xs = Inr ys' \<and> ys = y # ys')"
  by (auto simp: ebind_eq_Inr)

lemma food_items_describe:
  "mapM (make_FoodItem E) js = Inr items \<Longrightarrow> \<exists>ds. mapM (describe_item E) js = Inr ds"
proof (induction js arbitrary: items)
  case Nil
  then show ?case by simp
next
  case (Cons j js)
  then obtain i is' where i: "make_FoodItem E j = Inr i" "mapM (make_FoodItem E) js = Inr is'"
    unfolding mapM_eq_Inr_Cons by blast
  from make_FoodItem_describes[OF i(1)] obtain d where "describe_item E j = Inr d" ..
  moreover from Cons.IH[OF i(2)] obtain ds where "mapM (describe_item E) js = Inr ds" ..
  ultimately show ?case by simp
qed

lemma make_food_items_Inr:
  assumes "make_food_items E plan = Inr items"
  shows "\<exists>fi js. py_getitem plan ''food_items'' = Inr fi \<and> py_iter fi = Inr js
     \<and> mapM (make_FoodItem E) js = Inr items"
  using assms unfolding make_food_items_def ebind_eq_Inr by blast

lemma analyze_nutrition_outcome:
  assumes "make_food_items E plan = Inr items"
  shows "ebind (py_getitem plan ''food_items'') (\<lambda>fi. analyze_nutrition E fi (Inl e)) = Inl e"
proof -
  from make_food_items_Inr[OF assms] obtain fi js where
    f: "py_getitem plan ''food_items'' = Inr fi" "py_iter fi = Inr js"
      "mapM (make_FoodItem E) js = Inr items" by blast
  from food_items_describe[OF f(3)] obtain ds where "mapM (describe_item E) js = Inr ds" ..
  with f show ?thesis by (simp add: analyze_nutrition_def)
qed

lemma stage_error_propagates:
  assumes "analyze_image_and_plan E (planning_response R) = p"
  shows "p = Inl e \<Longrightarrow> snd (workflow E R t []) = Inl e"
    and "p = Inr plan \<Longrightarrow> make_food_items E plan = Inl e \<Longrightarrow>
           snd (workflow E R t []) = Inl e"
    and "p = Inr plan \<Longrightarrow> make_food_items E plan = Inr items \<Longrightarrow>
         py_getitem plan ''food_items'' = Inr fi \<Longrightarrow>
         analyze_nutrition E fi (nutrition_response R) = Inl e \<Longrightarrow>
           snd (workflow E R t []) = Inl e"
    and "p = Inr plan \<Longrightarrow> make_food_items E plan = Inr items \<Longrightarrow>
         py_getitem plan ''food_items'' = Inr fi \<Longrightarrow>
         analyze_nutrition E fi (nutrition_response R) = Inr nutr \<Longrightarrow>
         generate_recommendations E (health_response R) = Inl e \<Longrightarrow>
           snd (workflow E R t []) = Inl e"
    and "p = Inr plan \<Longrightarrow> make_food_items E plan = Inr items \<Longrightarrow>
         py_getitem plan ''food_items'' = Inr fi \<Longrightarrow>
         analyze_nutrition E fi (nutrition_response R) = Inr nutr \<Longrightarrow>
         generate_recommendations E (health_response R) = Inr recs \<Longrightarrow>
         suggest_complementary_foods E fi (meal_response R) = Inl e \<Longrightarrow>
           snd (workflow E R t []) = Inl e"
    and "p = Inr plan \<Longrightarrow> make_food_items E plan = Inr items \<Longrightarrow>
         py_getitem plan ''food_items'' = Inr fi \<Longrightarrow>
         analyze_nutrition E fi (nutrition_response R) = Inr nutr \<Longrightarrow>
         generate_recommendations E (health_response R) = Inr recs \<Longrightarrow>
         suggest_complementary_foods E fi (meal_response R) = Inr sugs \<Longrightarrow>
         aggregate_confidence items = Inr overall \<Longrightarrow>
         (\<And>lg. verify_analysis E
            \<lparr> food_items = items, nutrition = nutr, health_recommendations = recs,
              meal_suggestions = sugs, confidence_score = overall,
              analysis_timestamp = t, agent_coordination_log = lg \<rparr> = Inl e) \<Longrightarrow>
           snd (workflow E R t []) = Inl e"
  using assms unfolding workflow_def
  by (simp_all add: rbind_rlift rbind_rlog rbind_rget_log)

lemma generation_error_propagates:
  assumes "analyze_image_and_plan E (planning_response R) = Inr plan"
    "make_food_items E plan = Inr items"
  shows "nutrition_response R = Inl e \<Longrightarrow> snd (workflow E R t []) = Inl e"
    and "ebind (py_getitem plan ''food_items'')
           (\<lambda>fi. analyze_nutrition E fi (nutrition_response R)) = Inr nutr \<Longrightarrow>
         health_response R = Inl e \<Longrightarrow> snd (workflow E R t []) = Inl e"
proof -
  from make_food_items_Inr[OF assms(2)] obtain fi where
    f: "py_getitem plan ''food_items'' = Inr fi" by blast
  show "nutrition_response R = Inl e \<Longrightarrow> snd (workflow E R t []) = Inl e"
    using analyze_nutrition_outcome[OF assms(2), of e]
      stage_error_propagates(3)[OF assms(1) refl assms(2) f, of e t]
    by (simp add: f)
  show "ebind (py_getitem plan ''food_items'')
           (\<lambda>fi. analyze_nutrition E fi (nutrition_response R)) = Inr nutr \<Longrightarrow>
         health_response R = Inl e \<Longrightarrow> snd (workflow E R t []) = Inl e"
    using stage_error_propagates(4)[OF assms(1) refl assms(2) f, of nutr e t]
    by (simp add: f generate_recommendations_def)
qed

text \<open>
  No constructor checks the type of a value: a nutrient that is a string fails in the
  nutrition check, and a name that is a number fails where the names are joined.
\<close>

lemma ill_typed_values_raise:
  "verify_nutrition_values E (n\<lparr>protein := JStr s\<rparr>) = Inl TypeError"
  "py_join sep (JNum x # vs) = Inl TypeError"
  by (simp_all add: verify_nutrition_values_def negative_macros_def py_lt_def)

section \<open>The properties\<close>





text \<open>
  C6. On a nutrition record whose sodium and fiber are numbers and on recommendations
  whose messages are the strings \<open>msgs\<close>, the recommendation check returns; it flags an
  empty list; it flags sodium above 800 exactly when no lowered message contains
  \<open>sodium\<close>, and fiber below 5 exactly when none contains \<open>fiber\<close>; its confidence is 0.8
  on an empty issue list and 0.5 otherwise.
\<close>

theorem recommendation_check_flags:
  assumes "num_of (sodium n) = Some so" "num_of (fiber n) = Some fi"
    "map message recs = map JStr msgs"
  shows "\<exists>r. verify_recommendations recs n = Inr r
     \<and> (no_recommendations_msg \<in> set (issues r) \<longleftrightarrow> recs = [])
     \<and> (sodium_unaddressed_msg \<in> set (issues r) \<longleftrightarrow>
          so > 800 \<and> \<not> list_ex (\<lambda>m. contains ''sodium'' (lower m)) msgs)
     \<and> (fiber_unaddressed_msg \<in> set (issues r) \<longleftrightarrow>
          fi < 5 \<and> \<not> list_ex (\<lambda>m. contains ''fiber'' (lower m)) msgs)
     \<and> check_confidence r = (if issues r = [] then 0.8 else 0.5)"
  unfolding verify_recommendations_typed[OF assms]
  using rec_msgs_distinct rec_msgs_distinct[symmetric]
  by (simp add: make_check_def)

text \<open>
  C6 on sodium 1500, fiber 3 and one recommendation that mentions neither: both issues
  are flagged and the confidence is 0.5.
\<close>

theorem recommendation_check_flags_witness:
  "num_of (sodium (nutrition_fallback\<lparr>sodium := JNum 1500, fiber := JNum 3\<rparr>)) = Some 1500
   \<and> num_of (fiber (nutrition_fallback\<lparr>sodium := JNum 1500, fiber := JNum 3\<rparr>)) = Some 3
   \<and> map message
       [\<lparr> rec_category = JStr ''timing'', message = JStr ''Eat Slowly'',
          priority = JStr ''low'', reasoning = JStr ''Satiety'' \<rparr>] = map JStr [''Eat Slowly'']
   \<and> (\<exists>r. verify_recommendations
             [\<lparr> rec_category = JStr ''timing'', message = JStr ''Eat Slowly'',
                priority = JStr ''low'', reasoning = JStr ''Satiety'' \<rparr>]
             (nutrition_fallback\<lparr>sodium := JNum 1500, fiber := JNum 3\<rparr>) = Inr r
        \<and> sodium_unaddressed_msg \<in> set (issues r)
        \<and> fiber_unaddressed_msg \<in> set (issues r)
        \<and> check_confidence r = 0.5)"
proof -
  let ?n = "nutrition_fallback\<lparr>sodium := JNum 1500, fiber := JNum 3\<rparr>"
  let ?recs = "[\<lparr> rec_category = JStr ''timing'', message = JStr ''Eat Slowly'',
                  priority = JStr ''low'', reasoning = JStr ''Satiety'' \<rparr>]"
  have h1: "num_of (sodium ?n) = Some 1500" by (simp add: nutrition_fallback_def)
  have h2: "num_of (fiber ?n) = Some 3" by (simp add: nutrition_fallback_def)
  have h3: "map message ?recs = map JStr [''Eat Slowly'']" by simp
  show ?thesis
    using h1 h2 h3 recommendation_check_flags[OF h1 h2 h3]
    by (auto simp add: lower_def lower_char_def)
qed






text \<open>
  C10. When the extraction of the nutrition agent fails and the agent returns, it returns
  the fallback record; 335 calories are computed from it against the 300 stated, and the
  nutrition check passes it with no issue and confidence 0.9.
\<close>

theorem nutrition_fallback_passes_check:
  "nutrition_extraction_fails E response \<Longrightarrow>
   analyze_nutrition E fi (Inr response) = Inr n \<Longrightarrow>
     n = nutrition_fallback
     \<and> calculated_calories n = Inr (JNum 335)
     \<and> verify_nutrition_values E n
         = Inr \<lparr> check_confidence = 0.9, status = ''PASS'', issues = [] \<rparr>"
proof -
  assume a: "nutrition_extraction_fails E response"
    "analyze_nutrition E fi (Inr response) = Inr n"
  then have n: "n = nutrition_fallback" by (rule analyze_nutrition_fallback)
  have "calculated_calories nutrition_fallback = Inr (JNum 335)"
    by (simp add: calculated_calories_num[OF fallback_nums(1-3)])
  then show ?thesis by (simp add: n fallback_nutrition_check)
qed

text \<open>C10 on a response without any JSON, for an empty list of food items.\<close>

theorem nutrition_fallback_passes_check_witness:
  "nutrition_extraction_fails (table_env []) ''I cannot tell.''
   \<and> analyze_nutrition (table_env []) (JArr []) (Inr ''I cannot tell.'')
       = Inr nutrition_fallback
   \<and> calculated_calories nutrition_fallback = Inr (JNum 335)
   \<and> verify_nutrition_values (table_env []) nutrition_fallback
         = Inr \<lparr> check_confidence = 0.9, status = ''PASS'', issues = [] \<rparr>"
proof -
  have h1: "nutrition_extraction_fails (table_env []) ''I cannot tell.''"
    by (simp add: nutrition_extraction_fails_def table_env_def)
  have h2: "analyze_nutrition (table_env []) (JArr []) (Inr ''I cannot tell.'')
      = Inr nutrition_fallback"
    by (simp add: analyze_nutrition_def table_env_def)
  show ?thesis using h1 h2 nutrition_fallback_passes_check[OF h1 h2] by simp
qed

text \<open>
  C4, at the input on which the code departs from it: the planning response is the text
  \<open>{}\<close>, which parses to the empty object. The planning agent returns that object, the
  orchestrator looks up its \<open>food_items\<close>, and the \<open>KeyError\<close> is logged and raised to the
  caller: no fallback plan is substituted.
\<close>

theorem planning_shape_failure_escapes:
  "analyze_food_image (E\<lparr>json_loads := (json_loads E)(''{}'' \<mapsto> JObj [])\<rparr>)
      (R\<lparr>planning_response := Inr ''{}''\<rparr>) t
     = ([''['' @ clock E 0 @ ''] Planning Agent: Analyzing image and creating analysis strategy'',
         ''['' @ clock E 1 @ ''] Error in workflow: '' @ exc_str E (KeyError ''food_items'')],
        Inl (KeyError ''food_items''))"
  by (simp add: analyze_food_image_def workflow_def rbind_rlift rbind_rlog log_message_def
      analyze_image_and_plan_def make_food_items_def json_slice_def py_find_def py_rfind_def
      py_slice_def py_bound_def)

text \<open>
  C5. On every run that returns a result, the confidence score of the result is half the
  sum of the confidence before verification (the aggregate over the food items of the
  result) and the overall confidence that verification gave for the result with that
  aggregate as its score.
\<close>

theorem final_confidence_mean:
  "analyze_food_image E R t = (lg, Inr res) \<Longrightarrow>
     \<exists>pre v. aggregate_confidence (food_items res) = Inr pre
       \<and> verify_analysis E (res\<lparr>confidence_score := pre\<rparr>) = Inr v
       \<and> confidence_score res = (pre + overall_confidence v) / 2"
proof -
  assume a: "analyze_food_image E R t = (lg, Inr res)"
  obtain lg' out where w: "workflow E R t [] = (lg', out)" by (cases "workflow E R t []")
  with a have "workflow E R t [] = (lg, Inr res)"
    by (cases out) (simp_all add: analyze_food_image_def)
  from workflow_Inr[OF this] show ?thesis by blast
qed

text \<open>
  C5 on the run on which every agent falls back: the aggregate is 0.5, verification gives
  11/15, and the final score is 37/60.
\<close>

theorem final_confidence_mean_witness:
  "analyze_food_image (table_env []) no_json_responses 0 = (no_json_log, Inr no_json_result)
   \<and> aggregate_confidence (food_items no_json_result) = Inr 0.5
   \<and> confidence_score no_json_result = 37 / 60
   \<and> (\<exists>pre v. aggregate_confidence (food_items no_json_result) = Inr pre
       \<and> verify_analysis (table_env []) (no_json_result\<lparr>confidence_score := pre\<rparr>) = Inr v
       \<and> confidence_score no_json_result = (pre + overall_confidence v) / 2)"
  using no_json_run final_confidence_mean[OF no_json_run] no_json_aggregate
  by (simp add: no_json_result_def)

text \<open>
  C7, as the code has it. When a response is a text without \<open>{\<close>, then an object that
  \<^verbatim>\<open>json.loads\<close> parses, then a text without \<open>}\<close>, the planning agent returns the parsed
  object, and the nutrition agent, when it returns, returns the record built from the
  object if its keys are the eleven field names. When a response holds neither \<open>{\<close> nor
  \<open>}\<close>, and the empty text does not parse, both agents return their fallback.
\<close>

theorem extraction_of_embedded_object:
  "(CHR ''{'' \<notin> set pre \<and> CHR ''}'' \<notin> set post
      \<and> json_loads E (CHR ''{'' # body @ ''}'') = Some v \<longrightarrow>
        analyze_image_and_plan E (Inr (pre @ CHR ''{'' # body @ ''}'' @ post)) = Inr v
        \<and> (make_NutritionData v = Inr n
            \<and> analyze_nutrition E fi (Inr (pre @ CHR ''{'' # body @ ''}'' @ post)) = Inr n'
            \<longrightarrow> n' = n))
   \<and> (CHR ''{'' \<notin> set text \<and> CHR ''}'' \<notin> set text \<and> json_loads E [] = None \<longrightarrow>
        analyze_image_and_plan E (Inr text) = Inr fallback_plan
        \<and> (analyze_nutrition E fi (Inr text) = Inr m \<longrightarrow> m = nutrition_fallback))"
proof (intro conjI impI)
  assume a: "CHR ''{'' \<notin> set pre \<and> CHR ''}'' \<notin> set post
      \<and> json_loads E (CHR ''{'' # body @ ''}'') = Some v"
  then have s: "json_slice CHR ''{'' CHR ''}'' (pre @ CHR ''{'' # body @ CHR ''}'' # post)
      = CHR ''{'' # body @ ''}''"
    using json_slice_embedded[of "CHR ''{''" pre "CHR ''}''" post body] by simp
  show "analyze_image_and_plan E (Inr (pre @ CHR ''{'' # body @ ''}'' @ post)) = Inr v"
    using a by (simp add: analyze_image_and_plan_def s)
  assume b: "make_NutritionData v = Inr n
            \<and> analyze_nutrition E fi (Inr (pre @ CHR ''{'' # body @ ''}'' @ post)) = Inr n'"
  then have "analyze_nutrition E fi (Inr (pre @ CHR ''{'' # body @ CHR ''}'' # post)) = Inr n'"
    by simp
  then have "n' = (case json_loads E
        (json_slice CHR ''{'' CHR ''}'' (pre @ CHR ''{'' # body @ CHR ''}'' # post)) of
              None \<Rightarrow> nutrition_fallback
            | Some nutrition_data \<Rightarrow>
                (case make_NutritionData nutrition_data of
                   Inr n \<Rightarrow> n
                 | Inl e \<Rightarrow> nutrition_fallback))"
    by (rule analyze_nutrition_Inr)
  with a b show "n' = n" by (simp add: s)
next
  assume a: "CHR ''{'' \<notin> set text \<and> CHR ''}'' \<notin> set text \<and> json_loads E [] = None"
  then have s: "json_slice CHR ''{'' CHR ''}'' text = []"
    by (simp add: json_slice_no_delims)
  show "analyze_image_and_plan E (Inr text) = Inr fallback_plan"
    using a by (simp add: analyze_image_and_plan_def s)
  assume "analyze_nutrition E fi (Inr text) = Inr m"
  then have "m = (case json_loads E (json_slice CHR ''{'' CHR ''}'' text) of
              None \<Rightarrow> nutrition_fallback
            | Some nutrition_data \<Rightarrow>
                (case make_NutritionData nutrition_data of
                   Inr n \<Rightarrow> n
                 | Inl e \<Rightarrow> nutrition_fallback))"
    by (rule analyze_nutrition_Inr)
  with a show "m = nutrition_fallback" by (simp add: s)
qed

text \<open>
  C7 as amended, on the example response of the nutrition agent and on a response without
  JSON.
\<close>

theorem extraction_of_embedded_object_witness:
  "CHR ''{'' \<notin> set ''Here it is: '' \<and> CHR ''}'' \<notin> set '' Enjoy.''
   \<and> json_loads example_env (CHR ''{'' # example_nutrition_body @ ''}'')
       = Some example_nutrition_json
   \<and> analyze_image_and_plan example_env
        (Inr (''Here it is: '' @ CHR ''{'' # example_nutrition_body @ ''}'' @ '' Enjoy.''))
       = Inr example_nutrition_json
   \<and> make_NutritionData example_nutrition_json = Inr example_nutrition
   \<and> analyze_nutrition example_env (JArr [])
        (Inr (''Here it is: '' @ CHR ''{'' # example_nutrition_body @ ''}'' @ '' Enjoy.''))
       = Inr example_nutrition
   \<and> CHR ''{'' \<notin> set ''I cannot tell.'' \<and> CHR ''}'' \<notin> set ''I cannot tell.''
   \<and> json_loads example_env [] = None
   \<and> analyze_image_and_plan example_env (Inr ''I cannot tell.'') = Inr fallback_plan
   \<and> analyze_nutrition example_env (JArr []) (Inr ''I cannot tell.'') = Inr nutrition_fallback"
proof -
  let ?text = "''Here it is: '' @ CHR ''{'' # example_nutrition_body @ ''}'' @ '' Enjoy.''"
  have d: "CHR ''{'' \<notin> set ''Here it is: ''" "CHR ''}'' \<notin> set '' Enjoy.''"
    "CHR ''{'' \<notin> set ''I cannot tell.''" "CHR ''}'' \<notin> set ''I cannot tell.''"
    by simp_all
  have s: "json_slice CHR ''{'' CHR ''}'' ?text = CHR ''{'' # example_nutrition_body @ ''}''"
    using json_slice_embedded[OF d(1,2), of example_nutrition_body] by simp
  have n1: "analyze_nutrition example_env (JArr []) (Inr ?text) = Inr example_nutrition"
    unfolding analyze_nutrition_no_items s by (simp add: example_parse example_make)
  have n2: "analyze_nutrition example_env (JArr []) (Inr ''I cannot tell.'')
      = Inr nutrition_fallback"
    unfolding analyze_nutrition_no_items no_json_slice by (simp add: example_parse)
  show ?thesis
    using d example_parse example_make n1 n2
      extraction_of_embedded_object[of "''Here it is: ''" "'' Enjoy.''" example_env example_nutrition_body
        example_nutrition_json example_nutrition "JArr []" example_nutrition
        "''I cannot tell.''" nutrition_fallback]
    by simp
qed

text \<open>
  C7 as stated fails: a response with one well-formed object and a closing brace in the
  sentence after it is sliced up to that brace, does not parse, and the fallback plan is
  returned.
\<close>

theorem stray_brace_falls_back:
  \<open>json_loads (table_env [(''{"food_items": []}'', JObj [(''food_items'', JArr [])])])
       ''{"food_items": []}''
     = Some (JObj [(''food_items'', JArr [])])
   \<and> analyze_image_and_plan
         (table_env [(''{"food_items": []}'', JObj [(''food_items'', JArr [])])])
         (Inr ''Plan: {"food_items": []} :-}'')
     = Inr fallback_plan
   \<and> fallback_plan \<noteq> JObj [(''food_items'', JArr [])]\<close>
proof -
  have s: \<open>json_slice CHR ''{'' CHR ''}'' ''Plan: {"food_items": []} :-}''
      = ''{"food_items": []} :-}''\<close>
    using json_slice_embedded[of "CHR ''{''" "''Plan: ''" "CHR ''}''" "[]"
        \<open>''"food_items": []} :-''\<close>]
    by simp
  show ?thesis
    by (simp add: analyze_image_and_plan_def s table_env_def fallback_plan_def)
qed

text \<open>
  C9. When the body of the workflow raises \<open>e\<close> with the log \<open>lg\<close>, the orchestrator leaves
  the log \<open>lg\<close> with one error entry appended and raises \<open>e\<close>; no result is returned.
  When the body returns a result, the orchestrator returns it with the log it carries. An
  exception of the generation service at the planning call is such a case.
\<close>

theorem error_logged_and_reraised:
  "(workflow E R t [] = (lg, Inl e) \<longrightarrow>
      analyze_food_image E R t
        = (lg @ [''['' @ clock E (length lg) @ ''] Error in workflow: '' @ exc_str E e], Inl e))
   \<and> (workflow E R t [] = (lg', Inr res) \<longrightarrow>
        analyze_food_image E R t = (lg', Inr res) \<and> agent_coordination_log res = lg')
   \<and> (planning_response R' = Inl e' \<longrightarrow>
        workflow E R' t []
          = ([''['' @ clock E 0
               @ ''] Planning Agent: Analyzing image and creating analysis strategy''],
             Inl e'))"
proof (intro conjI impI)
  assume "workflow E R t [] = (lg, Inl e)"
  then show "analyze_food_image E R t
        = (lg @ [''['' @ clock E (length lg) @ ''] Error in workflow: '' @ exc_str E e], Inl e)"
    by (simp add: analyze_food_image_def log_message_def)
next
  assume a: "workflow E R t [] = (lg', Inr res)"
  then show "analyze_food_image E R t = (lg', Inr res)"
    by (simp add: analyze_food_image_def)
  from workflow_Inr[OF a] show "agent_coordination_log res = lg'" by blast
next
  assume "planning_response R' = Inl e'"
  then show "workflow E R' t []
          = ([''['' @ clock E 0
               @ ''] Planning Agent: Analyzing image and creating analysis strategy''],
             Inl e')"
    by (simp add: workflow_def rbind_rlog rbind_rlift log_message_def analyze_image_and_plan_def)
qed

text \<open>
  C9 on a run on which the generation service is down at the first call, and on the run on
  which every agent falls back.
\<close>

theorem error_logged_and_reraised_witness:
  "planning_response service_down
     = Inl (GenerationError ''API call failed with status 503: down'')
   \<and> workflow (table_env []) service_down 0 []
     = ([''[00:00:00] Planning Agent: Analyzing image and creating analysis strategy''],
        Inl (GenerationError ''API call failed with status 503: down''))
   \<and> analyze_food_image (table_env []) service_down 0
     = ([''[00:00:00] Planning Agent: Analyzing image and creating analysis strategy'',
         ''[00:00:00] Error in workflow: <error>''],
        Inl (GenerationError ''API call failed with status 503: down''))
   \<and> workflow (table_env []) no_json_responses 0 [] = (no_json_log, Inr no_json_result)
   \<and> analyze_food_image (table_env []) no_json_responses 0 = (no_json_log, Inr no_json_result)
   \<and> agent_coordination_log no_json_result = no_json_log"
proof -
  let ?e = "GenerationError ''API call failed with status 503: down''"
  let ?p = "''[00:00:00] Planning Agent: Analyzing image and creating analysis strategy''"
  have h1: "planning_response service_down = Inl ?e"
    by (simp add: service_down_def)
  have c: "clock (table_env []) k = ''00:00:00''" "exc_str (table_env []) x = ''<error>''" for k x
    by (simp_all add: table_env_def)
  have h2: "workflow (table_env []) service_down 0 [] = ([?p], Inl ?e)"
    using error_logged_and_reraised[of "table_env []" service_down 0 "[]" ?e "[]" no_json_result service_down ?e] h1
    by (simp add: c)
  show ?thesis
    using h1 h2 no_json_workflow
      error_logged_and_reraised[of "table_env []" service_down 0 "[?p]" ?e no_json_log no_json_result service_down ?e]
      error_logged_and_reraised[of "table_env []" no_json_responses 0 "[]" ?e no_json_log no_json_result service_down ?e]
    by (simp add: c)
qed

end
